theory Spec2Isabelle
  imports Main
begin

section \<open>The todo store of src/index.ts\<close>

text \<open>
  The server keeps two module-level variables, \<^verbatim>\<open>let todos: Todo[] = []\<close> and
  \<^verbatim>\<open>let nextId = 1\<close>. Every tool handler reads or mutates them synchronously, so a
  handler is modelled as a function from the store to a result and the store afterwards.

  The field \<^verbatim>\<open>id\<close> of the interface \<^verbatim>\<open>Todo\<close> is called \<open>todo_id\<close> here, since
  \<open>id\<close> is the identity function of HOL. The counter \<^verbatim>\<open>nextId\<close> is a JavaScript number,
  an IEEE double that holds an integer; its value is kept as a natural number and
  its increment is the double's, \<open>double_succ\<close> below.
\<close>

record todo =
  todo_id :: string
  title :: string
  completed :: bool
  createdAt :: string

record store =
  todos :: "todo list"
  nextId :: nat

definition init_store :: store where
  "init_store = \<lparr>todos = [], nextId = 1\<rparr>"

subsection \<open>The increment of a JavaScript number\<close>

text \<open>
  \<^verbatim>\<open>nextId++\<close> adds 1 in double arithmetic. Up to \<^verbatim>\<open>Number.MAX_SAFE_INTEGER\<close>, which is
  \<open>2^53 - 1\<close>, the sum is exact. At \<open>2^53\<close> the exact sum \<open>2^53 + 1\<close> is not a double; it
  lies half way between \<open>2^53\<close> and \<open>2^53 + 2\<close> and is rounded to the even one, \<open>2^53\<close>:
  the counter stays where it is. The counter starts at 1, so it never holds a value
  above \<open>2^53\<close>.
\<close>

definition MAX_SAFE_INTEGER :: nat where
  "MAX_SAFE_INTEGER = 9007199254740991"

definition double_succ :: "nat \<Rightarrow> nat" where
  "double_succ n = (if n \<le> MAX_SAFE_INTEGER then n + 1 else n)"

subsection \<open>Numbers rendered as strings\<close>

text \<open>
  \<^verbatim>\<open>String(n)\<close> and a number inside a template literal give the decimal digits of an
  integer, without leading zeros, and a minus sign in front of a negative one.
\<close>

fun String_num :: "nat \<Rightarrow> string" where
  "String_num n =
     (if n < 10 then [char_of (48 + n)]
      else String_num (n div 10) @ [char_of (48 + n mod 10)])"

declare String_num.simps [simp del]

definition String_int :: "int \<Rightarrow> string" where
  "String_int i = (if i < 0 then CHR ''-'' # String_num (nat (- i)) else String_num (nat i))"


subsection \<open>Tool results\<close>

text \<open>
  A handler returns an object with one text item in \<^verbatim>\<open>content\<close>, optionally
  \<^verbatim>\<open>isError: true\<close>, the \<^verbatim>\<open>structuredContent\<close> with a preview of the list
  (\<^verbatim>\<open>todos.slice(0, 10)\<close>) and \<^verbatim>\<open>_meta.fullData\<close> with the whole list. A missing
  \<^verbatim>\<open>isError\<close> is \<open>False\<close>, a missing payload is \<open>None\<close>.
\<close>

record stats =
  total_count :: int
  completed_count :: int
  pending_count :: int

datatype structured =
    GetTodosContent "todo list" string
  | AddTodoContent todo "todo list"
  | ToggleTodoContent todo "todo list"
  | DeleteTodoContent todo "todo list"
  | ClearCompletedContent nat "todo list"

datatype full_data =
    GetTodosFull "todo list" stats
  | AddTodoFull "todo list" todo
  | ToggleTodoFull "todo list" todo
  | DeleteTodoFull "todo list" todo
  | ClearCompletedFull "todo list" nat

record tool_result =
  content_text :: string
  isError :: bool
  structuredContent :: "structured option"
  fullData :: "full_data option"

definition not_found_result :: "string \<Rightarrow> tool_result" where
  \<open>not_found_result i =
     \<lparr>content_text = ''Todo with ID "'' @ i @ ''" not found.'',
      isError = True, structuredContent = None, fullData = None\<rparr>\<close>

subsection \<open>The five handlers\<close>

text \<open>\<^verbatim>\<open>get_todos\<close> (lines 120-137): counts by \<^verbatim>\<open>filter\<close>, subtracts, mutates nothing.\<close>

definition get_todos :: "store \<Rightarrow> tool_result \<times> store" where
  "get_todos s =
     (let completedCount = int (length (filter completed (todos s)));
          pendingCount = int (length (todos s)) - completedCount
      in (\<lparr>content_text =
             ''You have '' @ String_num (length (todos s)) @ '' todo(s): ''
             @ String_int completedCount @ '' completed, '' @ String_int pendingCount
             @ '' pending. View and manage them in the component below.'',
           isError = False,
           structuredContent = Some (GetTodosContent (take 10 (todos s))
             (String_num (length (todos s)) @ '' total, '' @ String_int completedCount
              @ '' completed, '' @ String_int pendingCount @ '' pending'')),
           fullData = Some (GetTodosFull (todos s)
             \<lparr>total_count = int (length (todos s)), completed_count = completedCount,
              pending_count = pendingCount\<rparr>)\<rparr>,
          s))"

text \<open>
  \<^verbatim>\<open>add_todo\<close> (lines 163-186): \<^verbatim>\<open>id: String(nextId++)\<close>, then \<^verbatim>\<open>todos.push\<close>. The
  argument \<open>stamp\<close> is what \<^verbatim>\<open>new Date().toISOString()\<close> returns at the call. The
  handler does not look at the title.
\<close>

definition add_todo :: "string \<Rightarrow> string \<Rightarrow> store \<Rightarrow> tool_result \<times> store" where
  \<open>add_todo ttl stamp s =
     (let newTodo = \<lparr>todo_id = String_num (nextId s), title = ttl, completed = False,
                     createdAt = stamp\<rparr>;
          s' = \<lparr>todos = todos s @ [newTodo], nextId = double_succ (nextId s)\<rparr>
      in (\<lparr>content_text =
             ''Added todo: "'' @ ttl @ ''". You now have '' @ String_num (length (todos s'))
             @ '' todo(s).'',
           isError = False,
           structuredContent = Some (AddTodoContent newTodo (take 10 (todos s'))),
           fullData = Some (AddTodoFull (todos s') newTodo)\<rparr>,
          s'))\<close>

text \<open>
  \<^verbatim>\<open>toggle_todo\<close> (lines 212-240): \<^verbatim>\<open>todos.find\<close> returns the first record with the
  identifier, and the handler assigns to its \<^verbatim>\<open>completed\<close> field. The record is an
  object of the array, and no object is in the array twice (\<^verbatim>\<open>push\<close> adds a fresh one,
  \<^verbatim>\<open>splice\<close> and \<^verbatim>\<open>filter\<close> only drop), so the assignment changes the first array
  element with that identifier: \<open>update_first\<close>.
\<close>

fun update_first :: "('a \<Rightarrow> bool) \<Rightarrow> ('a \<Rightarrow> 'a) \<Rightarrow> 'a list \<Rightarrow> 'a list" where
  "update_first P f [] = []"
| "update_first P f (x # xs) = (if P x then f x # xs else x # update_first P f xs)"

definition toggle_todo :: "string \<Rightarrow> store \<Rightarrow> tool_result \<times> store" where
  \<open>toggle_todo i s =
     (case find (\<lambda>t. todo_id t = i) (todos s) of
        None \<Rightarrow> (not_found_result i, s)
      | Some found \<Rightarrow>
          (let toggled = found\<lparr>completed := \<not> completed found\<rparr>;
               s' = s\<lparr>todos := update_first (\<lambda>t. todo_id t = i) (\<lambda>_. toggled) (todos s)\<rparr>
           in (\<lparr>content_text =
                  ''Marked "'' @ title toggled @ ''" as ''
                  @ (if completed toggled then ''completed'' else ''pending'') @ ''.'',
                isError = False,
                structuredContent = Some (ToggleTodoContent toggled (take 10 (todos s'))),
                fullData = Some (ToggleTodoFull (todos s') toggled)\<rparr>,
               s')))\<close>

text \<open>
  \<^verbatim>\<open>delete_todo\<close> (lines 266-295): \<^verbatim>\<open>findIndex\<close> gives the first index or -1
  (\<open>None\<close> here); \<^verbatim>\<open>splice(todoIndex, 1)\<close> removes that one element.
\<close>

fun findIndex :: "('a \<Rightarrow> bool) \<Rightarrow> 'a list \<Rightarrow> nat option" where
  "findIndex P [] = None"
| "findIndex P (x # xs) =
     (if P x then Some 0 else (case findIndex P xs of None \<Rightarrow> None | Some k \<Rightarrow> Some (Suc k)))"

definition splice1 :: "nat \<Rightarrow> 'a list \<Rightarrow> 'a list" where
  "splice1 k xs = take k xs @ drop (Suc k) xs"

definition delete_todo :: "string \<Rightarrow> store \<Rightarrow> tool_result \<times> store" where
  \<open>delete_todo i s =
     (case findIndex (\<lambda>t. todo_id t = i) (todos s) of
        None \<Rightarrow> (not_found_result i, s)
      | Some todoIndex \<Rightarrow>
          (let deletedTodo = todos s ! todoIndex;
               s' = s\<lparr>todos := splice1 todoIndex (todos s)\<rparr>
           in (\<lparr>content_text =
                  ''Deleted todo: "'' @ title deletedTodo @ ''". You now have ''
                  @ String_num (length (todos s')) @ '' todo(s).'',
                isError = False,
                structuredContent = Some (DeleteTodoContent deletedTodo (take 10 (todos s'))),
                fullData = Some (DeleteTodoFull (todos s') deletedTodo)\<rparr>,
               s')))\<close>

text \<open>\<^verbatim>\<open>clear_completed\<close> (lines 319-336): counts, then replaces the array by a filter.\<close>

definition clear_completed :: "store \<Rightarrow> tool_result \<times> store" where
  "clear_completed s =
     (let completedCount = length (filter completed (todos s));
          s' = s\<lparr>todos := filter (\<lambda>t. \<not> completed t) (todos s)\<rparr>
      in (\<lparr>content_text =
             ''Cleared '' @ String_num completedCount @ '' completed todo(s). You now have ''
             @ String_num (length (todos s')) @ '' todo(s) remaining.'',
           isError = False,
           structuredContent = Some (ClearCompletedContent completedCount (take 10 (todos s'))),
           fullData = Some (ClearCompletedFull (todos s') completedCount)\<rparr>,
          s'))"

subsection \<open>The input schema of \<^verbatim>\<open>add_todo\<close>\<close>

text \<open>
  \<^verbatim>\<open>inputSchema: { title: z.string() }\<close> (lines 146-148): the argument has to be a
  string; the schema puts no bound on its length, so the empty string passes. The
  handler runs only on arguments that pass. What the protocol layer answers otherwise is
  not code of this file; it is the value \<open>Inl ValidationError\<close> here.
\<close>

datatype json_value =
    JString string
  | JNumber int
  | JBool bool
  | JNull
  | JArray "json_value list"
  | JObject "(string \<times> json_value) list"

datatype validation_error = ValidationError

definition title_schema :: "json_value option \<Rightarrow> string option" where
  "title_schema arg = (case arg of Some (JString t) \<Rightarrow> Some t | _ \<Rightarrow> None)"

definition call_add_todo ::
  "json_value option \<Rightarrow> string \<Rightarrow> store \<Rightarrow> validation_error + tool_result \<times> store" where
  "call_add_todo arg stamp s =
     (case title_schema arg of None \<Rightarrow> Inl ValidationError
      | Some ttl \<Rightarrow> Inr (add_todo ttl stamp s))"

subsection \<open>Sequences of tool calls\<close>

datatype tool_call =
    GetTodos
  | AddTodo string string
  | ToggleTodo string
  | DeleteTodo string
  | ClearCompleted

fun call_tool :: "tool_call \<Rightarrow> store \<Rightarrow> tool_result \<times> store" where
  "call_tool GetTodos s = get_todos s"
| "call_tool (AddTodo ttl stamp) s = add_todo ttl stamp s"
| "call_tool (ToggleTodo i) s = toggle_todo i s"
| "call_tool (DeleteTodo i) s = delete_todo i s"
| "call_tool ClearCompleted s = clear_completed s"

text \<open>The results of a sequence of calls, in order, and the store after the last one.\<close>

fun run_calls :: "tool_call list \<Rightarrow> store \<Rightarrow> tool_result list \<times> store" where
  "run_calls [] s = ([], s)"
| "run_calls (c # cs) s =
     (let (r, s') = call_tool c s; (rs, s'') = run_calls cs s' in (r # rs, s''))"

text \<open>The identifier a result reports as newly assigned: that of its \<^verbatim>\<open>addedTodo\<close>.\<close>

fun added_id :: "tool_result \<Rightarrow> string option" where
  "added_id r =
     (case structuredContent r of Some (AddTodoContent t _) \<Rightarrow> Some (todo_id t) | _ \<Rightarrow> None)"

definition assigned_ids :: "tool_result list \<Rightarrow> string list" where
  "assigned_ids rs = List.map_filter added_id rs"


text \<open>Fields of a result that the properties below speak about.\<close>

fun reported_stats :: "tool_result \<Rightarrow> stats option" where
  "reported_stats r = (case fullData r of Some (GetTodosFull _ st) \<Rightarrow> Some st | _ \<Rightarrow> None)"

fun clearedCount :: "tool_result \<Rightarrow> nat option" where
  "clearedCount r =
     (case structuredContent r of Some (ClearCompletedContent n _) \<Rightarrow> Some n | _ \<Rightarrow> None)"

fun toggledTodo :: "tool_result \<Rightarrow> todo option" where
  "toggledTodo r =
     (case structuredContent r of Some (ToggleTodoContent t _) \<Rightarrow> Some t | _ \<Rightarrow> None)"

section \<open>The widget asset resolver\<close>

text \<open>
  \<^verbatim>\<open>let widgetFiles = { js: '', css: '' }; let lastFetch = 0; const CACHE_TTL = 60000\<close>
  (lines 368-370). Times are the milliseconds of \<^verbatim>\<open>Date.now()\<close>.
\<close>

record widget_files =
  js :: string
  css :: string

record cache =
  widgetFiles :: widget_files
  lastFetch :: int

definition CACHE_TTL :: int where
  "CACHE_TTL = 60000"

definition init_cache :: cache where
  "init_cache = \<lparr>widgetFiles = \<lparr>js = [], css = []\<rparr>, lastFetch = 0\<rparr>"

text \<open>
  The remote origin as one handler run sees it: the text that \<^verbatim>\<open>fetch(url)\<close> followed by
  \<^verbatim>\<open>response.text()\<close> yields for a URL, or \<open>None\<close> when either of them throws. Every
  function below also returns the URLs it requested, in order, so that "no request is
  issued" is a statement about its result.
\<close>

type_synonym network = "string \<Rightarrow> string option"

subsection \<open>The two patterns\<close>

text \<open>
  \<^verbatim>\<open>/src="\/(widget(?:-[a-f0-9]+)?\.js)"/\<close> and
  \<^verbatim>\<open>/href="\/(widget(?:-[a-f0-9]+)?\.css)"/\<close>. At one position the pattern reads the
  attribute up to \<^verbatim>\<open>/widget\<close>, then tries the optional group: a minus sign and the
  longest run of lower-case hexadecimal digits, which must not be empty and must be
  followed by the extension and the closing quote (a shorter run is followed by a
  digit, never by the dot). Otherwise the extension and the quote follow \<^verbatim>\<open>widget\<close>
  directly. \<^verbatim>\<open>match\<close> takes the leftmost position that matches; the result is group 1.
\<close>

definition hex_digit :: "char \<Rightarrow> bool" where
  "hex_digit c = (c \<in> set ''abcdef0123456789'')"

fun starts_with :: "string \<Rightarrow> string \<Rightarrow> bool" where
  "starts_with [] s = True"
| "starts_with (p # ps) [] = False"
| "starts_with (p # ps) (c # cs) = (p = c \<and> starts_with ps cs)"

definition widget_name_here :: "string \<Rightarrow> string \<Rightarrow> string \<Rightarrow> string option" where
  \<open>widget_name_here attr ext s =
     (let lead = attr @ ''="/widget'' in
      if starts_with lead s then
        (let r = drop (length lead) s in
         if (case r of [] \<Rightarrow> False
             | c # r' \<Rightarrow> c = CHR ''-'' \<and> takeWhile hex_digit r' \<noteq> []
                       \<and> starts_with (ext @ ''"'') (dropWhile hex_digit r'))
         then Some (''widget-'' @ takeWhile hex_digit (tl r) @ ext)
         else if starts_with (ext @ ''"'') r then Some (''widget'' @ ext)
         else None)
      else None)\<close>

fun regex_first :: "(string \<Rightarrow> 'a option) \<Rightarrow> string \<Rightarrow> 'a option" where
  "regex_first m [] = m []"
| "regex_first m (c # cs) =
     (case m (c # cs) of Some r \<Rightarrow> Some r | None \<Rightarrow> regex_first m cs)"

definition jsMatch :: "string \<Rightarrow> string option" where
  "jsMatch html = regex_first (widget_name_here ''src'' ''.js'') html"

definition cssMatch :: "string \<Rightarrow> string option" where
  "cssMatch html = regex_first (widget_name_here ''href'' ''.css'') html"

subsection \<open>Discovery and the two asset routes\<close>

text \<open>
  \<^verbatim>\<open>discoverWidgetFiles\<close> (lines 373-398). \<open>origin\<close> is the constant \<^verbatim>\<open>WIDGET_URL\<close>,
  \<open>now\<close> the value of \<^verbatim>\<open>Date.now()\<close>. A non-empty string is truthy. The function
  catches what the fetch throws and then changes nothing; the value it returns is the
  object \<^verbatim>\<open>widgetFiles\<close> of the cache afterwards.
\<close>

definition discoverWidgetFiles :: "string \<Rightarrow> network \<Rightarrow> int \<Rightarrow> cache \<Rightarrow> cache \<times> string list" where
  "discoverWidgetFiles origin net now c =
     (if js (widgetFiles c) \<noteq> [] \<and> css (widgetFiles c) \<noteq> [] \<and> now - lastFetch c < CACHE_TTL
      then (c, [])
      else
        (case net (origin @ ''/index.html'') of
           None \<Rightarrow> (c, [origin @ ''/index.html''])
         | Some html \<Rightarrow>
             (let f1 = (case jsMatch html of Some name \<Rightarrow> (widgetFiles c)\<lparr>js := name\<rparr>
                        | None \<Rightarrow> widgetFiles c);
                  f2 = (case cssMatch html of Some name \<Rightarrow> f1\<lparr>css := name\<rparr> | None \<Rightarrow> f1)
              in (\<lparr>widgetFiles = f2, lastFetch = now\<rparr>, [origin @ ''/index.html'']))))"

text \<open>
  What a route handler sends: the status (200 unless \<^verbatim>\<open>res.status\<close> is called), the
  \<^verbatim>\<open>Content-Type\<close> the handler sets itself, if any, and the body.
\<close>

record http_response =
  status :: nat
  contentType :: "string option"
  body :: string

text \<open>\<^verbatim>\<open>app.get('/widget.css', ...)\<close> (lines 401-416).\<close>

definition widget_css :: "string \<Rightarrow> network \<Rightarrow> int \<Rightarrow> cache \<Rightarrow> http_response \<times> cache \<times> string list" where
  "widget_css origin net now c =
     (let (c', reqs) = discoverWidgetFiles origin net now c in
      if css (widgetFiles c') = []
      then (\<lparr>status = 404, contentType = None, body = ''/* Widget CSS not found */''\<rparr>, c', reqs)
      else
        (case net (origin @ ''/'' @ css (widgetFiles c')) of
           None \<Rightarrow>
             (\<lparr>status = 500, contentType = None, body = ''/* Error loading widget CSS */''\<rparr>,
              c', reqs @ [origin @ ''/'' @ css (widgetFiles c')])
         | Some text \<Rightarrow>
             (\<lparr>status = 200, contentType = Some ''text/css'', body = text\<rparr>,
              c', reqs @ [origin @ ''/'' @ css (widgetFiles c')])))"

text \<open>\<^verbatim>\<open>app.get('/widget.js', ...)\<close> (lines 419-434).\<close>

definition widget_js :: "string \<Rightarrow> network \<Rightarrow> int \<Rightarrow> cache \<Rightarrow> http_response \<times> cache \<times> string list" where
  "widget_js origin net now c =
     (let (c', reqs) = discoverWidgetFiles origin net now c in
      if js (widgetFiles c') = []
      then (\<lparr>status = 404, contentType = None, body = ''// Widget JS not found''\<rparr>, c', reqs)
      else
        (case net (origin @ ''/'' @ js (widgetFiles c')) of
           None \<Rightarrow>
             (\<lparr>status = 500, contentType = None, body = ''// Error loading widget JS''\<rparr>,
              c', reqs @ [origin @ ''/'' @ js (widgetFiles c')])
         | Some text \<Rightarrow>
             (\<lparr>status = 200, contentType = Some ''application/javascript'', body = text\<rparr>,
              c', reqs @ [origin @ ''/'' @ js (widgetFiles c')])))"

section \<open>Concrete states\<close>

text \<open>A store after two additions and one toggle, with the counter at 3.\<close>

definition store1 :: store where
  "store1 = \<lparr>todos = [\<lparr>todo_id = ''1'', title = ''Buy milk'', completed = True, createdAt = ''t1''\<rparr>,
                      \<lparr>todo_id = ''2'', title = ''Walk dog'', completed = False, createdAt = ''t2''\<rparr>],
             nextId = 3\<rparr>"



text \<open>
  A cache that knows both file names, one that knows only the script, and a remote
  origin whose index page names a script and no stylesheet.
\<close>

definition cache_both :: cache where
  "cache_both = \<lparr>widgetFiles = \<lparr>js = ''widget-ab12.js'', css = ''widget-0f3a.css''\<rparr>,
                  lastFetch = 1000\<rparr>"

definition cache_js_only :: cache where
  "cache_js_only = \<lparr>widgetFiles = \<lparr>js = ''widget-ab12.js'', css = []\<rparr>, lastFetch = 1000\<rparr>"

definition page_js_only :: string where
  \<open>page_js_only = ''<script type="module" src="/widget-ab12.js"></script>''\<close>

definition net_js_only :: network where
  "net_js_only url =
     (if url = ''https://w.example/index.html'' then Some page_js_only
      else if url = ''https://w.example/widget-ab12.js'' then Some ''console.log(1)''
      else None)"

definition net_down :: network where
  "net_down url = None"

definition net_plain_page :: network where
  "net_plain_page url =
     (if url = ''https://w.example/index.html'' then Some ''<html></html>''
      else if url = ''https://w.example/widget-ab12.js'' then Some ''console.log(1)''
      else if url = ''https://w.example/widget-0f3a.css'' then Some ''body{}''
      else None)"

section \<open>Properties of the todo store\<close>

subsection \<open>Decimal rendering is injective\<close>




subsection \<open>The counter and the identifiers along a run\<close>









lemma digit_chars:
  "char_of (48 :: nat) = CHR ''0''" "char_of (49 :: nat) = CHR ''1''"
  "char_of (50 :: nat) = CHR ''2''" "char_of (51 :: nat) = CHR ''3''"
  "char_of (52 :: nat) = CHR ''4''" "char_of (53 :: nat) = CHR ''5''"
  "char_of (54 :: nat) = CHR ''6''" "char_of (55 :: nat) = CHR ''7''"
  "char_of (56 :: nat) = CHR ''8''" "char_of (57 :: nat) = CHR ''9''"
  by code_simp+





text \<open>
  The scenario of the specification: two additions, a toggle, a clear, and two deletions
  of the same identifier. The identifiers handed out are 1 and 2, the last result is the
  error, and the store ends empty with the counter at 3.
\<close>

lemma specification_scenario:
  "assigned_ids (fst (run_calls
      [AddTodo ''Buy milk'' ''t1'', AddTodo ''Walk dog'' ''t2'', ToggleTodo ''1'',
       ClearCompleted, DeleteTodo ''2'', DeleteTodo ''2''] init_store)) = [''1'', ''2'']"
  "map isError (fst (run_calls
      [AddTodo ''Buy milk'' ''t1'', AddTodo ''Walk dog'' ''t2'', ToggleTodo ''1'',
       ClearCompleted, DeleteTodo ''2'', DeleteTodo ''2''] init_store)) =
     [False, False, False, False, False, True]"
  "snd (run_calls
      [AddTodo ''Buy milk'' ''t1'', AddTodo ''Walk dog'' ''t2'', ToggleTodo ''1'',
       ClearCompleted, DeleteTodo ''2'', DeleteTodo ''2''] init_store) =
     \<lparr>todos = [], nextId = 3\<rparr>"
  by (simp_all add: assigned_ids_def add_todo_def toggle_todo_def delete_todo_def
      clear_completed_def init_store_def double_succ_def MAX_SAFE_INTEGER_def Let_def
      not_found_result_def String_num.simps digit_chars splice1_def)

subsection \<open>Unknown identifiers\<close>

lemma findIndex_None: "findIndex P xs = None \<longleftrightarrow> (\<forall>x \<in> set xs. \<not> P x)"
  by (induction xs) (auto split: option.splits)

text \<open>
  Claim C2. When no record of the store has the identifier, \<^verbatim>\<open>toggle_todo\<close> and
  \<^verbatim>\<open>delete_todo\<close> both return normally, with \<^verbatim>\<open>isError\<close> set and the text
  \<^verbatim>\<open>Todo with ID "<id>" not found.\<close>, and the store afterwards is the store before:
  the same records in the same order and the same counter.
\<close>

theorem unknown_id_soft_failure:
  \<open>i \<notin> todo_id ` set (todos s) \<Longrightarrow>
   toggle_todo i s =
     (\<lparr>content_text = ''Todo with ID "'' @ i @ ''" not found.'', isError = True,
       structuredContent = None, fullData = None\<rparr>, s)
   \<and> delete_todo i s =
     (\<lparr>content_text = ''Todo with ID "'' @ i @ ''" not found.'', isError = True,
       structuredContent = None, fullData = None\<rparr>, s)\<close>
proof -
  assume absent: "i \<notin> todo_id ` set (todos s)"
  then have "find (\<lambda>t. todo_id t = i) (todos s) = None"
    by (auto simp: find_None_iff)
  moreover from absent have "findIndex (\<lambda>t. todo_id t = i) (todos s) = None"
    by (auto simp: findIndex_None)
  ultimately show ?thesis
    by (simp add: toggle_todo_def delete_todo_def not_found_result_def)
qed

text \<open>The same at a store of two records and the identifier 7.\<close>

theorem unknown_id_soft_failure_witness:
  \<open>''7'' \<notin> todo_id ` set (todos store1)
   \<and> isError (fst (toggle_todo ''7'' store1)) \<and> snd (toggle_todo ''7'' store1) = store1
   \<and> isError (fst (delete_todo ''7'' store1)) \<and> snd (delete_todo ''7'' store1) = store1
   \<and> content_text (fst (delete_todo ''7'' store1)) = ''Todo with ID "7" not found.''\<close>
proof -
  have h: "''7'' \<notin> todo_id ` set (todos store1)"
    by (simp add: store1_def)
  show ?thesis
    using h unknown_id_soft_failure [OF h] by simp
qed

subsection \<open>Toggling\<close>

lemma find_Some_holds: "find P xs = Some x \<Longrightarrow> P x"
  by (induction xs) (auto split: if_splits)

lemma find_update_first:
  "find P xs = Some x \<Longrightarrow> P y \<Longrightarrow> find P (update_first P (\<lambda>_. y) xs) = Some y"
  by (induction xs) (auto split: if_splits)

lemma update_first_back:
  "find P xs = Some x \<Longrightarrow> P y \<Longrightarrow> update_first P (\<lambda>_. x) (update_first P (\<lambda>_. y) xs) = xs"
  by (induction xs) (auto split: if_splits)

lemma update_first_at:
  "find P xs = Some x \<Longrightarrow>
   \<exists>k<length xs. xs ! k = x \<and> (\<forall>j<k. \<not> P (xs ! j)) \<and> update_first P f xs = xs[k := f x]"
proof (induction xs)
  case Nil
  then show ?case by simp
next
  case (Cons a xs)
  show ?case
  proof (cases "P a")
    case True
    with Cons.prems have "a = x" by simp
    with True show ?thesis by (intro exI [of _ 0]) simp
  next
    case False
    with Cons.prems have "find P xs = Some x" by simp
    from Cons.IH [OF this] obtain k where k: "k < length xs" "xs ! k = x"
      "\<forall>j<k. \<not> P (xs ! j)" "update_first P f xs = xs[k := f x]" by blast
    have "\<forall>j<Suc k. \<not> P ((a # xs) ! j)"
      using False k(3) by (auto simp: less_Suc_eq_0_disj)
    with k False show ?thesis by (intro exI [of _ "Suc k"]) simp
  qed
qed

lemma find_present: "i \<in> f ` set xs \<Longrightarrow> \<exists>x. find (\<lambda>t. f t = i) xs = Some x"
  by (cases "find (\<lambda>t. f t = i) xs") (auto simp: find_None_iff)

text \<open>
  Claim C4. When the store has a record with the identifier, two calls of
  \<^verbatim>\<open>toggle_todo\<close> with it give back the store they started from, and the second call
  reports the record as it was. One call is not an error, keeps the counter, and
  replaces exactly one list element, the first one with this identifier, by the same
  record with \<^verbatim>\<open>completed\<close> negated; that record is the \<^verbatim>\<open>toggledTodo\<close> it reports.
\<close>

theorem toggle_todo_involution:
  assumes "i \<in> todo_id ` set (todos s)"
  shows "snd (toggle_todo i (snd (toggle_todo i s))) = s
    \<and> toggledTodo (fst (toggle_todo i (snd (toggle_todo i s)))) =
        find (\<lambda>t. todo_id t = i) (todos s)
    \<and> \<not> isError (fst (toggle_todo i s))
    \<and> nextId (snd (toggle_todo i s)) = nextId s
    \<and> (\<exists>k<length (todos s).
          todo_id (todos s ! k) = i \<and> (\<forall>j<k. todo_id (todos s ! j) \<noteq> i)
          \<and> todos (snd (toggle_todo i s)) =
              (todos s)[k := (todos s ! k)\<lparr>completed := \<not> completed (todos s ! k)\<rparr>]
          \<and> toggledTodo (fst (toggle_todo i s)) =
              Some ((todos s ! k)\<lparr>completed := \<not> completed (todos s ! k)\<rparr>))"
proof -
  let ?P = "\<lambda>t. todo_id t = i"
  from assms obtain x where x: "find ?P (todos s) = Some x"
    using find_present [of i todo_id "todos s"] by blast
  define y where "y = x\<lparr>completed := \<not> completed x\<rparr>"
  have Px: "?P x" using x by (rule find_Some_holds)
  then have Py: "?P y" by (simp add: y_def)
  have twice: "y\<lparr>completed := \<not> completed y\<rparr> = x" by (simp add: y_def)
  let ?s1 = "s\<lparr>todos := update_first ?P (\<lambda>_. y) (todos s)\<rparr>"
  have s1: "snd (toggle_todo i s) = ?s1"
    using x by (simp add: toggle_todo_def Let_def y_def)
  have r1: "toggledTodo (fst (toggle_todo i s)) = Some y" "\<not> isError (fst (toggle_todo i s))"
    using x by (simp_all add: toggle_todo_def Let_def y_def)
  have f1: "find ?P (todos ?s1) = Some y"
    using find_update_first [OF x Py] by simp
  have s2: "snd (toggle_todo i ?s1) = s"
    using f1 update_first_back [OF x Py] by (simp add: toggle_todo_def Let_def twice)
  have r2: "toggledTodo (fst (toggle_todo i ?s1)) = Some x"
    using f1 by (simp add: toggle_todo_def Let_def twice)
  from update_first_at [OF x, of "\<lambda>_. y"] obtain k where k: "k < length (todos s)"
    "todos s ! k = x" "\<forall>j<k. \<not> ?P (todos s ! j)"
    "update_first ?P (\<lambda>_. y) (todos s) = (todos s)[k := y]" by blast
  have "todo_id (todos s ! k) = i \<and> (\<forall>j<k. todo_id (todos s ! j) \<noteq> i)
      \<and> todos (snd (toggle_todo i s)) =
          (todos s)[k := (todos s ! k)\<lparr>completed := \<not> completed (todos s ! k)\<rparr>]
      \<and> toggledTodo (fst (toggle_todo i s)) =
          Some ((todos s ! k)\<lparr>completed := \<not> completed (todos s ! k)\<rparr>)"
    using k Px r1(1) by (simp add: s1 y_def)
  with k(1) have ex: "\<exists>k<length (todos s).
      todo_id (todos s ! k) = i \<and> (\<forall>j<k. todo_id (todos s ! j) \<noteq> i)
      \<and> todos (snd (toggle_todo i s)) =
          (todos s)[k := (todos s ! k)\<lparr>completed := \<not> completed (todos s ! k)\<rparr>]
      \<and> toggledTodo (fst (toggle_todo i s)) =
          Some ((todos s ! k)\<lparr>completed := \<not> completed (todos s ! k)\<rparr>)"
    by blast
  have "nextId (snd (toggle_todo i s)) = nextId s" by (simp add: s1)
  with s2 r2 r1(2) ex x show ?thesis by (simp add: s1)
qed

text \<open>The same at the store of two records and the identifier 1.\<close>

theorem toggle_todo_involution_witness:
  "''1'' \<in> todo_id ` set (todos store1)
   \<and> snd (toggle_todo ''1'' (snd (toggle_todo ''1'' store1))) = store1
   \<and> map completed (todos store1) = [True, False]
   \<and> map completed (todos (snd (toggle_todo ''1'' store1))) = [False, False]"
proof -
  have h: "''1'' \<in> todo_id ` set (todos store1)"
    by (simp add: store1_def)
  have "map completed (todos (snd (toggle_todo ''1'' store1))) = [False, False]"
    by (simp add: toggle_todo_def store1_def Let_def)
  with h toggle_todo_involution [OF h] show ?thesis
    by (simp add: store1_def)
qed

lemma length_filter_split:
  "length (filter P xs) + length (filter (\<lambda>x. \<not> P x) xs) = length xs"
  by (induction xs) simp_all

subsection \<open>Clearing\<close>

text \<open>
  Claim C3. After \<^verbatim>\<open>clear_completed\<close> the list is the old list without its completed
  records: the records that are not completed are all there, in their old order, and
  no completed record is left. \<^verbatim>\<open>clearedCount\<close> is the number of completed records of
  the old list, which is also the number by which the list got shorter. A second call
  right after reports 0 and returns the store it was given.
\<close>

theorem clear_completed_exact_and_idempotent:
  "todos (snd (clear_completed s)) = filter (\<lambda>t. \<not> completed t) (todos s)
   \<and> nextId (snd (clear_completed s)) = nextId s
   \<and> clearedCount (fst (clear_completed s)) = Some (length (filter completed (todos s)))
   \<and> length (todos (snd (clear_completed s))) + length (filter completed (todos s)) =
       length (todos s)
   \<and> filter completed (todos (snd (clear_completed s))) = []
   \<and> clearedCount (fst (clear_completed (snd (clear_completed s)))) = Some 0
   \<and> snd (clear_completed (snd (clear_completed s))) = snd (clear_completed s)"
proof -
  let ?s' = "snd (clear_completed s)"
  have t: "todos ?s' = filter (\<lambda>t. \<not> completed t) (todos s)"
    by (simp add: clear_completed_def Let_def)
  have n: "nextId ?s' = nextId s"
    by (simp add: clear_completed_def Let_def)
  have c: "clearedCount (fst (clear_completed u)) = Some (length (filter completed (todos u)))" for u
    by (simp add: clear_completed_def Let_def)
  have none: "filter completed (todos ?s') = []"
    unfolding t by (simp add: filter_empty_conv)
  have len: "length (todos ?s') + length (filter completed (todos s)) = length (todos s)"
    unfolding t using length_filter_split [of completed "todos s"] by simp
  have again: "snd (clear_completed ?s') = ?s'"
    by (simp add: clear_completed_def Let_def)
  from t n c [of s] len none c [of ?s'] again show ?thesis by simp
qed

subsection \<open>Statistics\<close>

text \<open>
  Claim C5. For every store, the \<^verbatim>\<open>stats\<close> of \<^verbatim>\<open>get_todos\<close> are: \<^verbatim>\<open>total\<close> the
  number of records, \<^verbatim>\<open>completed\<close> the number of completed records, \<^verbatim>\<open>pending\<close> the
  number of the others; pending plus completed is the total, neither is negative, and
  the call leaves the store as it is.
\<close>

theorem get_todos_stats_reconcile:
  "reported_stats (fst (get_todos s)) =
     Some \<lparr>total_count = int (length (todos s)),
           completed_count = int (length (filter completed (todos s))),
           pending_count = int (length (filter (\<lambda>t. \<not> completed t) (todos s)))\<rparr>
   \<and> (case reported_stats (fst (get_todos s)) of
        None \<Rightarrow> False
      | Some st \<Rightarrow> pending_count st + completed_count st = total_count st
                   \<and> 0 \<le> pending_count st \<and> 0 \<le> completed_count st)
   \<and> snd (get_todos s) = s"
proof -
  have "int (length (todos s)) - int (length (filter completed (todos s))) =
        int (length (filter (\<lambda>t. \<not> completed t) (todos s)))"
    using length_filter_split [of completed "todos s"] by linarith
  then show ?thesis
    by (simp add: get_todos_def Let_def)
qed

subsection \<open>Titles\<close>

text \<open>
  Claim C6, as amended. Neither the schema nor the handler checks the title beyond its
  being a string. For every string, the empty one included, the call passes the schema,
  \<^verbatim>\<open>add_todo\<close> returns a result that is not an error and appends one record that
  carries exactly this title, is not completed, and has the next identifier.
\<close>

theorem add_todo_accepts_every_title:
  "call_add_todo (Some (JString ttl)) stamp s = Inr (add_todo ttl stamp s)
   \<and> \<not> isError (fst (add_todo ttl stamp s))
   \<and> todos (snd (add_todo ttl stamp s)) =
       todos s @ [\<lparr>todo_id = String_num (nextId s), title = ttl, completed = False,
                   createdAt = stamp\<rparr>]
   \<and> structuredContent (fst (add_todo ttl stamp s)) =
       Some (AddTodoContent \<lparr>todo_id = String_num (nextId s), title = ttl, completed = False,
                              createdAt = stamp\<rparr>
              (take 10 (todos (snd (add_todo ttl stamp s)))))"
  by (simp add: call_add_todo_def title_schema_def add_todo_def Let_def)

text \<open>
  Claim C6 as stated fails: called with the empty title on the initial store, the call is
  not rejected, the handler reports no error, and the store then holds a record whose
  title is empty.
\<close>

theorem add_todo_empty_title_counterexample:
  "call_add_todo (Some (JString [])) ''2026-01-01T00:00:00.000Z'' init_store =
     Inr (add_todo [] ''2026-01-01T00:00:00.000Z'' init_store)
   \<and> \<not> isError (fst (add_todo [] ''2026-01-01T00:00:00.000Z'' init_store))
   \<and> todos (snd (add_todo [] ''2026-01-01T00:00:00.000Z'' init_store)) =
       [\<lparr>todo_id = ''1'', title = [], completed = False,
         createdAt = ''2026-01-01T00:00:00.000Z''\<rparr>]"
  by (simp add: call_add_todo_def title_schema_def add_todo_def init_store_def Let_def
      String_num.simps digit_chars)

section \<open>Properties of the widget asset resolver\<close>

subsection \<open>The freshness check\<close>

text \<open>
  Claim C7. In every cache state with both file names non-empty and an age below
  \<open>CACHE_TTL\<close>, \<^verbatim>\<open>discoverWidgetFiles\<close> requests nothing, whatever the remote origin
  would answer, and returns the cache as it is.
\<close>

theorem fresh_cache_no_request:
  "js (widgetFiles c) \<noteq> [] \<Longrightarrow> css (widgetFiles c) \<noteq> [] \<Longrightarrow> now - lastFetch c < CACHE_TTL \<Longrightarrow>
   discoverWidgetFiles origin net now c = (c, [])"
  by (simp add: discoverWidgetFiles_def)

text \<open>A cache 59999 ms old with both names.\<close>

theorem fresh_cache_no_request_witness:
  "js (widgetFiles cache_both) \<noteq> [] \<and> css (widgetFiles cache_both) \<noteq> []
   \<and> 60999 - lastFetch cache_both < CACHE_TTL
   \<and> discoverWidgetFiles ''https://w.example'' net_js_only 60999 cache_both = (cache_both, [])"
proof -
  have h: "js (widgetFiles cache_both) \<noteq> []" "css (widgetFiles cache_both) \<noteq> []"
    "60999 - lastFetch cache_both < CACHE_TTL"
    by (simp_all add: cache_both_def CACHE_TTL_def)
  from h fresh_cache_no_request [OF h] show ?thesis by simp
qed

text \<open>
  Claim C9. When exactly one of the two file names is empty, every call of
  \<^verbatim>\<open>discoverWidgetFiles\<close> requests the index page, and only it, at every time and so
  also within \<open>CACHE_TTL\<close> of the last fetch.
\<close>

theorem one_name_missing_always_fetches:
  "(js (widgetFiles c) = []) \<noteq> (css (widgetFiles c) = []) \<Longrightarrow>
   snd (discoverWidgetFiles origin net now c) = [origin @ ''/index.html'']"
  by (auto simp: discoverWidgetFiles_def Let_def split: option.splits)

text \<open>A cache that knows only the script, asked again at the very time of its last fetch.\<close>

theorem one_name_missing_always_fetches_witness:
  "(js (widgetFiles cache_js_only) = []) \<noteq> (css (widgetFiles cache_js_only) = [])
   \<and> 1000 - lastFetch cache_js_only < CACHE_TTL
   \<and> snd (discoverWidgetFiles ''https://w.example'' net_down 1000 cache_js_only) =
       [''https://w.example/index.html'']"
proof -
  have h: "(js (widgetFiles cache_js_only) = []) \<noteq> (css (widgetFiles cache_js_only) = [])"
    by (simp add: cache_js_only_def)
  have "1000 - lastFetch cache_js_only < CACHE_TTL"
    by (simp add: cache_js_only_def CACHE_TTL_def)
  with h one_name_missing_always_fetches [OF h, of "''https://w.example''" net_down 1000]
  show ?thesis by simp
qed

subsection \<open>What a completed fetch does to the cache\<close>

lemma plain_page_no_match: "jsMatch ''<html></html>'' = None" "cssMatch ''<html></html>'' = None"
  by code_simp+

lemma page_js_only_match: "jsMatch page_js_only = Some ''widget-ab12.js''" "cssMatch page_js_only = None"
  by code_simp+

text \<open>
  Claim C10. When the call reaches the fetch of the index page and the fetch returns a
  page, \<^verbatim>\<open>lastFetch\<close> becomes the time of the call, whether or not the patterns match;
  a name whose pattern does not match keeps its old value. If both names are then
  non-empty, every call less than \<open>CACHE_TTL\<close> later requests nothing and returns this
  cache, so names that were there before count as fresh for a further full period.
\<close>

theorem completed_fetch_advances_lastFetch:
  assumes "\<not> (js (widgetFiles c) \<noteq> [] \<and> css (widgetFiles c) \<noteq> [] \<and> now - lastFetch c < CACHE_TTL)"
    and "net (origin @ ''/index.html'') = Some html"
  shows "lastFetch (fst (discoverWidgetFiles origin net now c)) = now
    \<and> js (widgetFiles (fst (discoverWidgetFiles origin net now c))) =
        (case jsMatch html of Some name \<Rightarrow> name | None \<Rightarrow> js (widgetFiles c))
    \<and> css (widgetFiles (fst (discoverWidgetFiles origin net now c))) =
        (case cssMatch html of Some name \<Rightarrow> name | None \<Rightarrow> css (widgetFiles c))
    \<and> (js (widgetFiles (fst (discoverWidgetFiles origin net now c))) \<noteq> []
        \<and> css (widgetFiles (fst (discoverWidgetFiles origin net now c))) \<noteq> []
       \<longrightarrow> (\<forall>net' now'. now' - now < CACHE_TTL \<longrightarrow>
             discoverWidgetFiles origin net' now' (fst (discoverWidgetFiles origin net now c)) =
               (fst (discoverWidgetFiles origin net now c), [])))"
proof -
  let ?c' = "fst (discoverWidgetFiles origin net now c)"
  have lf: "lastFetch ?c' = now"
    using assms by (auto simp: discoverWidgetFiles_def Let_def)
  have j: "js (widgetFiles ?c') = (case jsMatch html of Some name \<Rightarrow> name | None \<Rightarrow> js (widgetFiles c))"
    using assms by (auto simp: discoverWidgetFiles_def Let_def split: option.splits)
  have k: "css (widgetFiles ?c') = (case cssMatch html of Some name \<Rightarrow> name | None \<Rightarrow> css (widgetFiles c))"
    using assms by (auto simp: discoverWidgetFiles_def Let_def split: option.splits)
  have fresh: "discoverWidgetFiles origin net' now' ?c' = (?c', [])"
    if "js (widgetFiles ?c') \<noteq> []" "css (widgetFiles ?c') \<noteq> []" "now' - now < CACHE_TTL"
    for net' now'
    using that lf by (simp add: discoverWidgetFiles_def)
  from lf j k fresh show ?thesis by blast
qed

text \<open>
  A cache with both names, 99 s old, and an index page that matches neither pattern: the
  names stay, the time stamp moves, and a call 59999 ms later requests nothing.
\<close>

theorem completed_fetch_advances_lastFetch_witness:
  "\<not> (js (widgetFiles cache_both) \<noteq> [] \<and> css (widgetFiles cache_both) \<noteq> []
       \<and> 100000 - lastFetch cache_both < CACHE_TTL)
   \<and> net_plain_page (''https://w.example'' @ ''/index.html'') = Some ''<html></html>''
   \<and> jsMatch ''<html></html>'' = None \<and> cssMatch ''<html></html>'' = None
   \<and> fst (discoverWidgetFiles ''https://w.example'' net_plain_page 100000 cache_both) =
        cache_both\<lparr>lastFetch := 100000\<rparr>
   \<and> discoverWidgetFiles ''https://w.example'' net_down 159999 (cache_both\<lparr>lastFetch := 100000\<rparr>) =
        (cache_both\<lparr>lastFetch := 100000\<rparr>, [])"
proof -
  let ?c' = "fst (discoverWidgetFiles ''https://w.example'' net_plain_page 100000 cache_both)"
  have h1: "\<not> (js (widgetFiles cache_both) \<noteq> [] \<and> css (widgetFiles cache_both) \<noteq> []
       \<and> 100000 - lastFetch cache_both < CACHE_TTL)"
    by (simp add: cache_both_def CACHE_TTL_def)
  have h2: "net_plain_page (''https://w.example'' @ ''/index.html'') = Some ''<html></html>''"
    by (simp add: net_plain_page_def)
  note inst = completed_fetch_advances_lastFetch [where c = cache_both and now = 100000
      and net = net_plain_page and origin = "''https://w.example''" and html = "''<html></html>''",
      OF h1 h2]
  from inst have lf: "lastFetch ?c' = 100000"
    by (rule conjunct1)
  from inst have j: "js (widgetFiles ?c') = js (widgetFiles cache_both)"
    by (simp add: plain_page_no_match)
  from inst have k: "css (widgetFiles ?c') = css (widgetFiles cache_both)"
    by (simp add: plain_page_no_match)
  have c': "?c' = cache_both\<lparr>lastFetch := 100000\<rparr>"
    using lf j k by (intro cache.equality widget_files.equality) simp_all
  have names: "js (widgetFiles ?c') \<noteq> [] \<and> css (widgetFiles ?c') \<noteq> []"
    unfolding j k by (simp add: cache_both_def)
  from inst have "js (widgetFiles ?c') \<noteq> [] \<and> css (widgetFiles ?c') \<noteq> [] \<longrightarrow>
      (\<forall>net' now'. now' - 100000 < CACHE_TTL \<longrightarrow>
         discoverWidgetFiles ''https://w.example'' net' now' ?c' = (?c', []))"
    by blast
  with names have "\<forall>net' now'. now' - 100000 < CACHE_TTL \<longrightarrow>
      discoverWidgetFiles ''https://w.example'' net' now' ?c' = (?c', [])"
    by blast
  then have "(159999::int) - 100000 < CACHE_TTL \<longrightarrow>
      discoverWidgetFiles ''https://w.example'' net_down 159999 ?c' = (?c', [])"
    by blast
  then have again: "discoverWidgetFiles ''https://w.example'' net_down 159999 ?c' = (?c', [])"
    by (simp add: CACHE_TTL_def)
  from h1 h2 c' again show ?thesis
    by (simp add: plain_page_no_match)
qed

subsection \<open>The routes \<^verbatim>\<open>/widget.js\<close> and \<^verbatim>\<open>/widget.css\<close>\<close>

lemma discover_fresh:
  "js (widgetFiles c) \<noteq> [] \<Longrightarrow> css (widgetFiles c) \<noteq> [] \<Longrightarrow> now - lastFetch c < CACHE_TTL \<Longrightarrow>
   discoverWidgetFiles origin net now c = (c, [])"
  by (simp add: discoverWidgetFiles_def)

lemma discover_no_js:
  assumes "js (widgetFiles c) = []"
    and "case net (origin @ ''/index.html'') of None \<Rightarrow> True | Some html \<Rightarrow> jsMatch html = None"
  shows "js (widgetFiles (fst (discoverWidgetFiles origin net now c))) = []
    \<and> snd (discoverWidgetFiles origin net now c) = [origin @ ''/index.html'']"
  using assms by (auto simp: discoverWidgetFiles_def Let_def split: option.splits)

lemma discover_no_css:
  assumes "css (widgetFiles c) = []"
    and "case net (origin @ ''/index.html'') of None \<Rightarrow> True | Some html \<Rightarrow> cssMatch html = None"
  shows "css (widgetFiles (fst (discoverWidgetFiles origin net now c))) = []
    \<and> snd (discoverWidgetFiles origin net now c) = [origin @ ''/index.html'']"
  using assms by (auto simp: discoverWidgetFiles_def Let_def split: option.splits)

lemma widget_name_here_nonempty: "widget_name_here attr ext s = Some name \<Longrightarrow> name \<noteq> []"
  by (auto simp: widget_name_here_def Let_def split: if_splits)

lemma regex_first_nonempty:
  "regex_first (widget_name_here attr ext) s = Some name \<Longrightarrow> name \<noteq> []"
  by (induction s) (auto split: option.splits dest: widget_name_here_nonempty)

lemma discover_keeps_js:
  "js (widgetFiles c) \<noteq> [] \<Longrightarrow> js (widgetFiles (fst (discoverWidgetFiles origin net now c))) \<noteq> []"
  by (auto simp: discoverWidgetFiles_def Let_def jsMatch_def split: option.splits
      dest: regex_first_nonempty)

lemma discover_keeps_css:
  "css (widgetFiles c) \<noteq> [] \<Longrightarrow> css (widgetFiles (fst (discoverWidgetFiles origin net now c))) \<noteq> []"
  by (auto simp: discoverWidgetFiles_def Let_def cssMatch_def split: option.splits
      dest: regex_first_nonempty)

text \<open>
  Claim C8, as amended. \<^verbatim>\<open>GET /widget.js\<close>: when the cache has no script name and the
  discovery of this request finds none (the index fetch throws, or the page has no match),
  the response is 404 with the body \<^verbatim>\<open>// Widget JS not found\<close>, and the index page is
  the only request. A script name that is in the cache stays known through the discovery
  of the request, and whenever a script name is known after that discovery, within
  \<open>CACHE_TTL\<close> or not, and the fetch of the script returns, the response is 200 with
  \<^verbatim>\<open>Content-Type: application/javascript\<close> and the fetched text; the requests are those
  of the discovery and then the script. No discovery fetch is issued when both file names
  are in the cache and its age is below \<open>CACHE_TTL\<close>: then the cache is unchanged and
  the script is the only request. \<^verbatim>\<open>GET /widget.css\<close> does the same with
  \<^verbatim>\<open>/* Widget CSS not found */\<close> and \<^verbatim>\<open>text/css\<close>.
\<close>

theorem widget_routes_not_found_and_cached:
  "(js (widgetFiles c) = []
      \<and> (case net (origin @ ''/index.html'') of None \<Rightarrow> True | Some html \<Rightarrow> jsMatch html = None)
     \<longrightarrow> fst (widget_js origin net now c) =
           \<lparr>status = 404, contentType = None, body = ''// Widget JS not found''\<rparr>
         \<and> snd (snd (widget_js origin net now c)) = [origin @ ''/index.html''])
   \<and> (js (widgetFiles c) \<noteq> []
     \<longrightarrow> js (widgetFiles (fst (discoverWidgetFiles origin net now c))) \<noteq> [])
   \<and> (js (widgetFiles (fst (discoverWidgetFiles origin net now c))) \<noteq> []
      \<and> net (origin @ ''/'' @ js (widgetFiles (fst (discoverWidgetFiles origin net now c)))) =
          Some script
     \<longrightarrow> widget_js origin net now c =
           (\<lparr>status = 200, contentType = Some ''application/javascript'', body = script\<rparr>,
            fst (discoverWidgetFiles origin net now c),
            snd (discoverWidgetFiles origin net now c)
            @ [origin @ ''/'' @ js (widgetFiles (fst (discoverWidgetFiles origin net now c)))]))
   \<and> (js (widgetFiles c) \<noteq> [] \<and> css (widgetFiles c) \<noteq> [] \<and> now - lastFetch c < CACHE_TTL
      \<and> net (origin @ ''/'' @ js (widgetFiles c)) = Some script
     \<longrightarrow> widget_js origin net now c =
           (\<lparr>status = 200, contentType = Some ''application/javascript'', body = script\<rparr>,
            c, [origin @ ''/'' @ js (widgetFiles c)]))
   \<and> (css (widgetFiles c) = []
      \<and> (case net (origin @ ''/index.html'') of None \<Rightarrow> True | Some html \<Rightarrow> cssMatch html = None)
     \<longrightarrow> fst (widget_css origin net now c) =
           \<lparr>status = 404, contentType = None, body = ''/* Widget CSS not found */''\<rparr>
         \<and> snd (snd (widget_css origin net now c)) = [origin @ ''/index.html''])
   \<and> (css (widgetFiles c) \<noteq> []
     \<longrightarrow> css (widgetFiles (fst (discoverWidgetFiles origin net now c))) \<noteq> [])
   \<and> (css (widgetFiles (fst (discoverWidgetFiles origin net now c))) \<noteq> []
      \<and> net (origin @ ''/'' @ css (widgetFiles (fst (discoverWidgetFiles origin net now c)))) =
          Some sheet
     \<longrightarrow> widget_css origin net now c =
           (\<lparr>status = 200, contentType = Some ''text/css'', body = sheet\<rparr>,
            fst (discoverWidgetFiles origin net now c),
            snd (discoverWidgetFiles origin net now c)
            @ [origin @ ''/'' @ css (widgetFiles (fst (discoverWidgetFiles origin net now c)))]))
   \<and> (js (widgetFiles c) \<noteq> [] \<and> css (widgetFiles c) \<noteq> [] \<and> now - lastFetch c < CACHE_TTL
      \<and> net (origin @ ''/'' @ css (widgetFiles c)) = Some sheet
     \<longrightarrow> widget_css origin net now c =
           (\<lparr>status = 200, contentType = Some ''text/css'', body = sheet\<rparr>,
            c, [origin @ ''/'' @ css (widgetFiles c)]))"
proof -
  let ?d = "discoverWidgetFiles origin net now c"
  have js404: "fst (widget_js origin net now c) =
        \<lparr>status = 404, contentType = None, body = ''// Widget JS not found''\<rparr>
      \<and> snd (snd (widget_js origin net now c)) = [origin @ ''/index.html'']"
    if "js (widgetFiles c) = []
      \<and> (case net (origin @ ''/index.html'') of None \<Rightarrow> True | Some html \<Rightarrow> jsMatch html = None)"
  proof -
    from that have "js (widgetFiles (fst ?d)) = [] \<and> snd ?d = [origin @ ''/index.html'']"
      using discover_no_js by blast
    then show ?thesis by (simp add: widget_js_def case_prod_beta)
  qed
  have css404: "fst (widget_css origin net now c) =
        \<lparr>status = 404, contentType = None, body = ''/* Widget CSS not found */''\<rparr>
      \<and> snd (snd (widget_css origin net now c)) = [origin @ ''/index.html'']"
    if "css (widgetFiles c) = []
      \<and> (case net (origin @ ''/index.html'') of None \<Rightarrow> True | Some html \<Rightarrow> cssMatch html = None)"
  proof -
    from that have "css (widgetFiles (fst ?d)) = [] \<and> snd ?d = [origin @ ''/index.html'']"
      using discover_no_css by blast
    then show ?thesis by (simp add: widget_css_def case_prod_beta)
  qed
  have js200: "widget_js origin net now c =
      (\<lparr>status = 200, contentType = Some ''application/javascript'', body = script\<rparr>,
       fst ?d, snd ?d @ [origin @ ''/'' @ js (widgetFiles (fst ?d))])"
    if "js (widgetFiles (fst ?d)) \<noteq> []
      \<and> net (origin @ ''/'' @ js (widgetFiles (fst ?d))) = Some script"
    using that by (simp add: widget_js_def case_prod_beta)
  have css200: "widget_css origin net now c =
      (\<lparr>status = 200, contentType = Some ''text/css'', body = sheet\<rparr>,
       fst ?d, snd ?d @ [origin @ ''/'' @ css (widgetFiles (fst ?d))])"
    if "css (widgetFiles (fst ?d)) \<noteq> []
      \<and> net (origin @ ''/'' @ css (widgetFiles (fst ?d))) = Some sheet"
    using that by (simp add: widget_css_def case_prod_beta)
  have jsfresh: "widget_js origin net now c =
      (\<lparr>status = 200, contentType = Some ''application/javascript'', body = script\<rparr>,
       c, [origin @ ''/'' @ js (widgetFiles c)])"
    if "js (widgetFiles c) \<noteq> [] \<and> css (widgetFiles c) \<noteq> [] \<and> now - lastFetch c < CACHE_TTL
      \<and> net (origin @ ''/'' @ js (widgetFiles c)) = Some script"
    using that by (simp add: widget_js_def discover_fresh)
  have cssfresh: "widget_css origin net now c =
      (\<lparr>status = 200, contentType = Some ''text/css'', body = sheet\<rparr>,
       c, [origin @ ''/'' @ css (widgetFiles c)])"
    if "js (widgetFiles c) \<noteq> [] \<and> css (widgetFiles c) \<noteq> [] \<and> now - lastFetch c < CACHE_TTL
      \<and> net (origin @ ''/'' @ css (widgetFiles c)) = Some sheet"
    using that by (simp add: widget_css_def discover_fresh)
  from js404 css404 js200 css200 jsfresh cssfresh
    discover_keeps_js [of c origin net now] discover_keeps_css [of c origin net now]
  show ?thesis by blast
qed

text \<open>
  Both routes at the empty cache with the origin down; at a cache one second old with
  both names; the script route at a cache one second old that knows only the script name,
  where the index page is fetched again and the answer is still 200; and the stylesheet
  route at a cache with both names that is too old.
\<close>

theorem widget_routes_not_found_and_cached_witness:
  "js (widgetFiles init_cache) = [] \<and> css (widgetFiles init_cache) = []
   \<and> net_down (''https://w.example'' @ ''/index.html'') = None
   \<and> fst (widget_js ''https://w.example'' net_down 2000 init_cache) =
        \<lparr>status = 404, contentType = None, body = ''// Widget JS not found''\<rparr>
   \<and> fst (widget_css ''https://w.example'' net_down 2000 init_cache) =
        \<lparr>status = 404, contentType = None, body = ''/* Widget CSS not found */''\<rparr>
   \<and> js (widgetFiles cache_both) \<noteq> [] \<and> css (widgetFiles cache_both) \<noteq> []
   \<and> 2000 - lastFetch cache_both < CACHE_TTL
   \<and> widget_js ''https://w.example'' net_plain_page 2000 cache_both =
        (\<lparr>status = 200, contentType = Some ''application/javascript'', body = ''console.log(1)''\<rparr>,
         cache_both, [''https://w.example/widget-ab12.js''])
   \<and> widget_css ''https://w.example'' net_plain_page 2000 cache_both =
        (\<lparr>status = 200, contentType = Some ''text/css'', body = ''body{}''\<rparr>,
         cache_both, [''https://w.example/widget-0f3a.css''])
   \<and> js (widgetFiles cache_js_only) \<noteq> [] \<and> css (widgetFiles cache_js_only) = []
   \<and> 2000 - lastFetch cache_js_only < CACHE_TTL
   \<and> widget_js ''https://w.example'' net_js_only 2000 cache_js_only =
        (\<lparr>status = 200, contentType = Some ''application/javascript'', body = ''console.log(1)''\<rparr>,
         cache_js_only\<lparr>lastFetch := 2000\<rparr>,
         [''https://w.example/index.html'', ''https://w.example/widget-ab12.js''])
   \<and> \<not> 200000 - lastFetch cache_both < CACHE_TTL
   \<and> widget_css ''https://w.example'' net_plain_page 200000 cache_both =
        (\<lparr>status = 200, contentType = Some ''text/css'', body = ''body{}''\<rparr>,
         cache_both\<lparr>lastFetch := 200000\<rparr>,
         [''https://w.example/index.html'', ''https://w.example/widget-0f3a.css''])"
proof -
  let ?W = "''https://w.example''"
  have a: "js (widgetFiles init_cache) = []" "css (widgetFiles init_cache) = []"
    "net_down (?W @ ''/index.html'') = None"
    by (simp_all add: init_cache_def net_down_def)
  have b: "js (widgetFiles cache_both) \<noteq> []" "css (widgetFiles cache_both) \<noteq> []"
    "2000 - lastFetch cache_both < CACHE_TTL"
    "net_plain_page (?W @ ''/'' @ js (widgetFiles cache_both)) = Some ''console.log(1)''"
    "net_plain_page (?W @ ''/'' @ css (widgetFiles cache_both)) = Some ''body{}''"
    by (simp_all add: cache_both_def CACHE_TTL_def net_plain_page_def)
  have c: "js (widgetFiles cache_both) = ''widget-ab12.js''"
    "css (widgetFiles cache_both) = ''widget-0f3a.css''"
    by (simp_all add: cache_both_def)
  have e: "js (widgetFiles cache_js_only) \<noteq> []" "css (widgetFiles cache_js_only) = []"
    "2000 - lastFetch cache_js_only < CACHE_TTL" "\<not> 200000 - lastFetch cache_both < CACHE_TTL"
    by (simp_all add: cache_js_only_def cache_both_def CACHE_TTL_def)
  have d1: "discoverWidgetFiles ?W net_js_only 2000 cache_js_only =
      (cache_js_only\<lparr>lastFetch := 2000\<rparr>, [''https://w.example/index.html''])"
    by (simp add: discoverWidgetFiles_def cache_js_only_def net_js_only_def page_js_only_match
        Let_def)
  have d2: "discoverWidgetFiles ?W net_plain_page 200000 cache_both =
      (cache_both\<lparr>lastFetch := 200000\<rparr>, [''https://w.example/index.html''])"
    by (simp add: discoverWidgetFiles_def cache_both_def net_plain_page_def plain_page_no_match
        CACHE_TTL_def Let_def)
  have f: "net_js_only (?W @ ''/'' @ js (widgetFiles (cache_js_only\<lparr>lastFetch := 2000\<rparr>))) =
      Some ''console.log(1)''"
    "net_plain_page (?W @ ''/'' @ css (widgetFiles (cache_both\<lparr>lastFetch := 200000\<rparr>))) =
      Some ''body{}''"
    by (simp_all add: cache_js_only_def cache_both_def net_js_only_def net_plain_page_def)
  have g: "js (widgetFiles (cache_js_only\<lparr>lastFetch := 2000\<rparr>)) = ''widget-ab12.js''"
    "css (widgetFiles (cache_both\<lparr>lastFetch := 200000\<rparr>)) = ''widget-0f3a.css''"
    by (simp_all add: cache_js_only_def cache_both_def)
  have g0: "js (widgetFiles cache_js_only) = ''widget-ab12.js''"
    by (simp add: cache_js_only_def)
  note i1 = widget_routes_not_found_and_cached [where c = init_cache and net = net_down
      and origin = ?W and now = 2000]
  note i2 = widget_routes_not_found_and_cached [where c = cache_both and net = net_plain_page
      and origin = ?W and now = 2000 and script = "''console.log(1)''" and sheet = "''body{}''"]
  note i3 = widget_routes_not_found_and_cached [where c = cache_js_only and net = net_js_only
      and origin = ?W and now = 2000 and script = "''console.log(1)''"]
  note i4 = widget_routes_not_found_and_cached [where c = cache_both and net = net_plain_page
      and origin = ?W and now = 200000 and sheet = "''body{}''"]
  from i1 a have r1: "fst (widget_js ?W net_down 2000 init_cache) =
      \<lparr>status = 404, contentType = None, body = ''// Widget JS not found''\<rparr>"
    "fst (widget_css ?W net_down 2000 init_cache) =
      \<lparr>status = 404, contentType = None, body = ''/* Widget CSS not found */''\<rparr>"
    by simp_all
  from i2 b have r2: "widget_js ?W net_plain_page 2000 cache_both =
      (\<lparr>status = 200, contentType = Some ''application/javascript'', body = ''console.log(1)''\<rparr>,
       cache_both, [''https://w.example/widget-ab12.js''])"
    "widget_css ?W net_plain_page 2000 cache_both =
      (\<lparr>status = 200, contentType = Some ''text/css'', body = ''body{}''\<rparr>,
       cache_both, [''https://w.example/widget-0f3a.css''])"
    by (simp_all add: c)
  from i3 f(1) have r3: "widget_js ?W net_js_only 2000 cache_js_only =
      (\<lparr>status = 200, contentType = Some ''application/javascript'', body = ''console.log(1)''\<rparr>,
       cache_js_only\<lparr>lastFetch := 2000\<rparr>,
       [''https://w.example/index.html'', ''https://w.example/widget-ab12.js''])"
    unfolding d1 fst_conv snd_conv by (simp add: g g0)
  from i4 f(2) have r4: "widget_css ?W net_plain_page 200000 cache_both =
      (\<lparr>status = 200, contentType = Some ''text/css'', body = ''body{}''\<rparr>,
       cache_both\<lparr>lastFetch := 200000\<rparr>,
       [''https://w.example/index.html'', ''https://w.example/widget-0f3a.css''])"
    unfolding d2 fst_conv snd_conv by (simp add: g c)
  from a b(1-3) e r1 r2 r3 r4 show ?thesis by simp
qed

text \<open>
  Claim C8 as stated fails where a script name has been discovered and no stylesheet name.
  From the empty cache, a first \<^verbatim>\<open>GET /widget.js\<close> at time 1000 against an index page
  that names only a script discovers the script name and answers 200. A second one at
  time 2000, within \<open>CACHE_TTL\<close>, requests the index page again before the script.
\<close>

theorem widget_js_refetches_when_css_unknown_counterexample:
  "status (fst (widget_js ''https://w.example'' net_js_only 1000 init_cache)) = 200
   \<and> fst (snd (widget_js ''https://w.example'' net_js_only 1000 init_cache)) = cache_js_only
   \<and> js (widgetFiles cache_js_only) = ''widget-ab12.js''
   \<and> 2000 - lastFetch cache_js_only < CACHE_TTL
   \<and> snd (snd (widget_js ''https://w.example'' net_js_only 2000 cache_js_only)) =
        [''https://w.example/index.html'', ''https://w.example/widget-ab12.js'']"
  by (simp add: widget_js_def discoverWidgetFiles_def init_cache_def cache_js_only_def
      net_js_only_def page_js_only_match CACHE_TTL_def Let_def)

end
